theory Spec2Isabelle
  imports Main "HOL-Library.Word"
begin

section \<open>The commit and diff extraction engine of \<open>src/git_analyzer.py\<close>\<close>

text \<open>
  The module reads a repository through a version-control library and turns what it reads
  into two dataclasses, \<open>CommitInfo\<close> and \<open>FileChange\<close>. The library's objects are
  modelled as data: a record holds the attributes the module reads, and a library call that
  may raise is a field whose value is either the exception or the result. The module's own
  functions are translated statement by statement; every \<open>try\<close>/\<open>except\<close> of the source is
  a case distinction on such a value.
\<close>

subsection \<open>Python values\<close>

text \<open>
  Exceptions that are instances of \<open>Exception\<close> (the only ones \<open>except Exception\<close>
  catches). \<open>BadName\<close> is what the library raises for a revision it cannot resolve,
  \<open>GitCommandError\<close> stands for any failure of the underlying repository access.
\<close>

datatype py_exception =
    AttributeError | TypeError | UnicodeDecodeError | OverflowError | ValueError | OSError
  | BadName | GitCommandError

text \<open>
  An optional string attribute: \<open>None\<close> is Python's \<open>None\<close>, \<open>Some s\<close> a \<open>str\<close>.
  Both \<open>None\<close> and the empty string are falsy; \<open>x or y\<close> is \<open>x\<close> when \<open>x\<close> is truthy
  and \<open>y\<close> otherwise.
\<close>

fun py_truthy :: "string option \<Rightarrow> bool" where
  "py_truthy None = False"
| "py_truthy (Some s) = (s \<noteq> [])"

definition py_or :: "string option \<Rightarrow> string option \<Rightarrow> string option" where
  "py_or x y = (if py_truthy x then x else y)"

text \<open>\<open>d.get(k, default)\<close> on a dictionary kept as an association list.\<close>

definition dict_get :: "(string \<times> int) list \<Rightarrow> string \<Rightarrow> int \<Rightarrow> int" where
  "dict_get d k dflt = (case map_of d k of None \<Rightarrow> dflt | Some v \<Rightarrow> v)"

text \<open>
  A value of the per-file statistics dictionary of a commit: the source sums the values
  and guards the sum with \<open>except TypeError\<close>, so a value is either a number or something
  that cannot be added to a number (the library's per-file dictionary of counts).
\<close>

datatype stat_value = IntVal int | DictVal "(string \<times> int) list"

text \<open>
  The builtin \<open>sum\<close>: starts at 0 and adds from left to right; adding a dictionary to a
  number raises \<open>TypeError\<close>.
\<close>

fun py_sum_from :: "int \<Rightarrow> stat_value list \<Rightarrow> py_exception + int" where
  "py_sum_from acc [] = Inr acc"
| "py_sum_from acc (IntVal n # vs) = py_sum_from (acc + n) vs"
| "py_sum_from acc (DictVal d # vs) = Inl TypeError"

definition py_sum :: "stat_value list \<Rightarrow> py_exception + int" where
  "py_sum vs = py_sum_from 0 vs"

text \<open>
  A \<open>str\<close> whose characters matter (the commit message, the decoded diff) is the list
  of its code points.
\<close>

type_synonym unicode = "nat list"

text \<open>
  \<open>str.strip()\<close> removes leading and trailing whitespace. The whitespace code points
  of a \<open>str\<close> are U+0009 to U+000D, U+001C to U+0020, U+0085, U+00A0, U+1680, U+2000 to
  U+200A, U+2028, U+2029, U+202F, U+205F and U+3000.
\<close>

definition is_space :: "nat \<Rightarrow> bool" where
  "is_space c =
     ((0x09 \<le> c \<and> c \<le> 0x0D) \<or> (0x1C \<le> c \<and> c \<le> 0x20) \<or> c = 0x85 \<or> c = 0xA0
      \<or> c = 0x1680 \<or> (0x2000 \<le> c \<and> c \<le> 0x200A) \<or> c = 0x2028 \<or> c = 0x2029
      \<or> c = 0x202F \<or> c = 0x205F \<or> c = 0x3000)"

definition strip :: "unicode \<Rightarrow> unicode" where
  "strip s = rev (dropWhile is_space (rev (dropWhile is_space s)))"

subsection \<open>Datetimes\<close>

text \<open>
  A naive \<open>datetime\<close> is the number of microseconds since 0001-01-01 00:00:00; the type
  holds the instants from there to the end of the year 9999. A \<open>timedelta\<close> is a number
  of microseconds and holds at most 999999999 days in either direction.
  \<open>timedelta(days=n)\<close> raises \<open>OverflowError\<close> beyond that, and so does a subtraction
  whose result is not a \<open>datetime\<close>.
\<close>

type_synonym datetime = int

definition max_datetime :: int where
  "max_datetime = 3652059 * 86400 * 1000000"

definition timedelta :: "int \<Rightarrow> py_exception + int" where
  "timedelta days =
     (if - 999999999 \<le> days \<and> days \<le> 999999999 then Inr (days * 86400 * 1000000)
      else Inl OverflowError)"

definition datetime_sub :: "datetime \<Rightarrow> int \<Rightarrow> py_exception + datetime" where
  "datetime_sub d delta =
     (let t = d - delta in
      if 0 \<le> t \<and> t < max_datetime then Inr t else Inl OverflowError)"

text \<open>
  The clock of the process. \<open>now\<close> is what \<open>datetime.now()\<close> returns.
  \<open>datetime.fromtimestamp\<close> turns a number of seconds since the epoch into the naive
  local datetime; the result depends on the time zone of the process, and the call raises
  for a timestamp the platform or the type cannot hold. It is a parameter: for each
  timestamp the datetime, or the exception.
\<close>

record Clock =
  now :: datetime
  fromtimestamp :: "int \<Rightarrow> py_exception + datetime"

subsection \<open>Decoding UTF-8\<close>

type_synonym byte = "8 word"

text \<open>
  \<open>bytes.decode('utf-8', errors=...)\<close>. The decoder walks the bytes and finds either a
  well-formed sequence, which gives one code point, or a malformed range of one to three
  bytes. The error handler decides what a malformed range becomes: \<open>strict\<close> raises,
  \<open>ignore\<close> drops the range, \<open>replace\<close> puts U+FFFD in its place.
\<close>

datatype utf8_item = CodePoint nat | Malformed nat

definition is_cont :: "byte \<Rightarrow> bool" where
  "is_cont b = (0x80 \<le> b \<and> b < 0xC0)"

text \<open>The second byte of a three-byte and of a four-byte sequence, given the lead byte.\<close>

definition second_ok3 :: "byte \<Rightarrow> byte \<Rightarrow> bool" where
  "second_ok3 ch ch2 = (is_cont ch2 \<and> \<not> (if ch2 < 0xA0 then ch = 0xE0 else ch = 0xED))"

definition second_ok4 :: "byte \<Rightarrow> byte \<Rightarrow> bool" where
  "second_ok4 ch ch2 = (is_cont ch2 \<and> \<not> (if ch2 < 0x90 then ch = 0xF0 else ch = 0xF4))"

definition cp2 :: "byte \<Rightarrow> byte \<Rightarrow> nat" where
  "cp2 ch ch2 = (unat ch - 0xC0) * 64 + (unat ch2 - 0x80)"

definition cp3 :: "byte \<Rightarrow> byte \<Rightarrow> byte \<Rightarrow> nat" where
  "cp3 ch ch2 ch3 = (unat ch - 0xE0) * 4096 + (unat ch2 - 0x80) * 64 + (unat ch3 - 0x80)"

definition cp4 :: "byte \<Rightarrow> byte \<Rightarrow> byte \<Rightarrow> byte \<Rightarrow> nat" where
  "cp4 ch ch2 ch3 ch4 =
     (unat ch - 0xF0) * 262144 + (unat ch2 - 0x80) * 4096 + (unat ch3 - 0x80) * 64
       + (unat ch4 - 0x80)"

fun utf8_scan :: "byte list \<Rightarrow> utf8_item list" where
  "utf8_scan [] = []"
| "utf8_scan (ch # s) =
     (if ch < 0x80 then CodePoint (unat ch) # utf8_scan s
      else if ch < 0xC2 then Malformed 1 # utf8_scan s
      else if ch < 0xE0 then
        (case s of
           [] \<Rightarrow> [Malformed 1]
         | ch2 # s2 \<Rightarrow>
             if \<not> is_cont ch2 then Malformed 1 # utf8_scan s
             else CodePoint (cp2 ch ch2) # utf8_scan s2)
      else if ch < 0xF0 then
        (case s of
           [] \<Rightarrow> [Malformed 1]
         | ch2 # s2 \<Rightarrow>
             if \<not> second_ok3 ch ch2 then Malformed 1 # utf8_scan s
             else (case s2 of
                     [] \<Rightarrow> [Malformed 2]
                   | ch3 # s3 \<Rightarrow>
                       if \<not> is_cont ch3 then Malformed 2 # utf8_scan s2
                       else CodePoint (cp3 ch ch2 ch3) # utf8_scan s3))
      else if ch < 0xF5 then
        (case s of
           [] \<Rightarrow> [Malformed 1]
         | ch2 # s2 \<Rightarrow>
             if \<not> second_ok4 ch ch2 then Malformed 1 # utf8_scan s
             else (case s2 of
                     [] \<Rightarrow> [Malformed 2]
                   | ch3 # s3 \<Rightarrow>
                       if \<not> is_cont ch3 then Malformed 2 # utf8_scan s2
                       else (case s3 of
                               [] \<Rightarrow> [Malformed 3]
                             | ch4 # s4 \<Rightarrow>
                                 if \<not> is_cont ch4 then Malformed 3 # utf8_scan s3
                                 else CodePoint (cp4 ch ch2 ch3 ch4) # utf8_scan s4)))
      else Malformed 1 # utf8_scan s)"

datatype errors = Strict | Ignore | Replace

fun handle_items :: "errors \<Rightarrow> utf8_item list \<Rightarrow> py_exception + unicode" where
  "handle_items h [] = Inr []"
| "handle_items h (CodePoint c # its) =
     (case handle_items h its of Inl e \<Rightarrow> Inl e | Inr cs \<Rightarrow> Inr (c # cs))"
| "handle_items Strict (Malformed n # its) = Inl UnicodeDecodeError"
| "handle_items Ignore (Malformed n # its) = handle_items Ignore its"
| "handle_items Replace (Malformed n # its) =
     (case handle_items Replace its of Inl e \<Rightarrow> Inl e | Inr cs \<Rightarrow> Inr (0xFFFD # cs))"

definition decode_utf8 :: "errors \<Rightarrow> byte list \<Rightarrow> py_exception + unicode" where
  "decode_utf8 h bs = handle_items h (utf8_scan bs)"

subsection \<open>The library's objects\<close>

text \<open>
  The \<open>diff\<close> attribute of a diff entry: \<open>bytes\<close> when the diff was made with its
  patch text, a \<open>str\<close> (the empty one) when it was made without, or \<open>None\<close>.
\<close>

datatype diff_body = Bytes "byte list" | Str unicode | NoBody

text \<open>
  A diff entry of \<open>x.diff(y)\<close>. \<open>a_path\<close> is the path on the side of \<open>x\<close> and
  \<open>b_path\<close> the path on the side of \<open>y\<close>; \<open>new_file\<close> says that the file is on the
  b-side only, \<open>deleted_file\<close> that it is on the a-side only. The module always calls
  \<open>commit.diff(commit.parents[0])\<close>: the a-side is the commit itself, the state after
  the commit's change, and the b-side is its first parent, the state before it.
  \<open>stats\<close> is \<open>None\<close> when the entry has no usable \<open>stats\<close> attribute (reading it
  raises \<open>AttributeError\<close>).
\<close>

record Diff =
  a_path :: "string option"
  b_path :: "string option"
  new_file :: bool
  deleted_file :: bool
  diff :: diff_body
  stats :: "(string \<times> int) list option"

text \<open>
  A commit. \<open>c_parents\<close> holds the identifiers of the parents; \<open>c_diff c p\<close> is the outcome
  of \<open>commit.diff(p)\<close>; \<open>c_stats_files\<close> is the outcome of \<open>commit.stats.files\<close>, an
  ordered dictionary from path to value.
\<close>

record Commit =
  c_hexsha :: string
  c_author_name :: string
  c_committed_date :: int
  c_message :: unicode
  c_parents :: "string list"
  c_diff :: "string \<Rightarrow> py_exception + Diff list"
  c_stats_files :: "py_exception + (string \<times> stat_value) list"

text \<open>
  A lazy sequence of commits: it ends, yields a commit and goes on, or raises.
\<close>

datatype 'a iter = Done | Yield 'a "'a iter" | Raise py_exception

record Repo =
  repo_iter_commits :: "string \<Rightarrow> Commit iter"
  repo_commit :: "string \<Rightarrow> py_exception + Commit"

subsection \<open>The module's dataclasses and its log\<close>

record CommitInfo =
  hash :: string
  author :: string
  date :: datetime
  message :: unicode
  files_changed :: "string option list"
  additions :: int
  deletions :: int

record FileChange =
  file_path :: string
  change_type :: string
  fc_additions :: int
  fc_deletions :: int
  diff_content :: unicode

text \<open>
  The records the module writes to its logger: the \<open>info\<close> line of
  \<open>get_recent_commits\<close> (days, number of commits) and the three \<open>error\<close> lines, each
  with the exception it reports.
\<close>

datatype log_record =
    Info_recent_commits int nat
  | Error_recent_commits py_exception
  | Error_file_changes py_exception
  | Error_extract_file_change py_exception

type_synonym log = "log_record list"

subsection \<open>\<open>_extract_commit_info\<close>\<close>

text \<open>
  The loop over the diff against the first parent. Its state is the three local
  variables \<open>files_changed\<close>, \<open>additions\<close> and \<open>deletions\<close> of the source
  (here \<open>files\<close>, \<open>adds\<close>, \<open>dels\<close>, since the dataclass fields have those names). An entry
  without \<open>stats\<close> raises \<open>AttributeError\<close> on the first of the two additions, which the
  source catches and passes over: neither total changes.
\<close>

fun diff_loop ::
  "Diff list \<Rightarrow> string option list \<times> int \<times> int \<Rightarrow> string option list \<times> int \<times> int" where
  "diff_loop [] st = st"
| "diff_loop (change # rest) (files, adds, dels) =
     (let files' = files @ [py_or (a_path change) (b_path change)] in
      case stats change of
        None \<Rightarrow> diff_loop rest (files', adds, dels)
      | Some st \<Rightarrow>
          diff_loop rest
            (files',
             adds + dict_get st ''insertions'' 0,
             dels + dict_get st ''deletions'' 0))"

text \<open>
  The body up to the construction of the result: the three values for a commit with a
  parent (diff against \<open>parents[0]\<close>) and for a root commit (keys of the statistics in
  their order; the sum of the values, or 0 when the sum raises \<open>TypeError\<close>). A failure of
  \<open>commit.diff\<close> or of \<open>commit.stats\<close> is not caught here.
\<close>

definition commit_changes :: "Commit \<Rightarrow> py_exception + string option list \<times> int \<times> int" where
  "commit_changes commit =
     (case c_parents commit of
        p # ps \<Rightarrow>
          (case c_diff commit p of
             Inl e \<Rightarrow> Inl e
           | Inr d \<Rightarrow> Inr (diff_loop d ([], 0, 0)))
      | [] \<Rightarrow>
          (case c_stats_files commit of
             Inl e \<Rightarrow> Inl e
           | Inr files \<Rightarrow>
               Inr (map (\<lambda>key. Some key) (map fst files),
                    (case py_sum (map snd files) of Inl e \<Rightarrow> 0 | Inr n \<Rightarrow> n),
                    0)))"

text \<open>
  The construction of the \<open>CommitInfo\<close>: its arguments are evaluated in order, and the
  conversion of the commit time may raise.
\<close>

definition extract_commit_info :: "Clock \<Rightarrow> Commit \<Rightarrow> py_exception + CommitInfo" where
  "extract_commit_info clock commit =
     (case commit_changes commit of
        Inl e \<Rightarrow> Inl e
      | Inr (fs, adds, dels) \<Rightarrow>
          (case fromtimestamp clock (c_committed_date commit) of
             Inl e \<Rightarrow> Inl e
           | Inr d \<Rightarrow>
               Inr \<lparr> hash = take 8 (c_hexsha commit),
                     author = c_author_name commit,
                     date = d,
                     message = strip (c_message commit),
                     files_changed = fs,
                     additions = adds,
                     deletions = dels \<rparr>))"

subsection \<open>\<open>get_recent_commits\<close>\<close>

text \<open>
  The \<open>for\<close> loop over the commit iterator, with \<open>commits\<close> as its state: \<open>break\<close> at the
  first commit older than \<open>start_date\<close>; an exception of the iterator, of the conversion
  of the commit time or of \<open>_extract_commit_info\<close> leaves the loop.
\<close>

fun recent_loop ::
  "Clock \<Rightarrow> datetime \<Rightarrow> Commit iter \<Rightarrow> CommitInfo list \<Rightarrow> py_exception + CommitInfo list" where
  "recent_loop clock start_date Done commits = Inr commits"
| "recent_loop clock start_date (Raise e) commits = Inl e"
| "recent_loop clock start_date (Yield commit rest) commits =
     (case fromtimestamp clock (c_committed_date commit) of
        Inl e \<Rightarrow> Inl e
      | Inr commit_date \<Rightarrow>
          if commit_date < start_date then Inr commits
          else (case extract_commit_info clock commit of
                  Inl e \<Rightarrow> Inl e
                | Inr commit_info \<Rightarrow>
                    recent_loop clock start_date rest (commits @ [commit_info])))"

text \<open>
  The body of the \<open>try\<close>. \<open>start_date\<close> is computed first, and both the \<open>timedelta\<close> and
  the subtraction may raise. The \<open>info\<close> line is written only when the loop ends without
  an exception.
\<close>

definition get_recent_commits_try ::
  "Repo \<Rightarrow> Clock \<Rightarrow> int \<Rightarrow> log \<Rightarrow> (py_exception + CommitInfo list) \<times> log" where
  "get_recent_commits_try repo clock days lg =
     (let end_date = now clock in
      case timedelta days of
        Inl e \<Rightarrow> (Inl e, lg)
      | Inr delta \<Rightarrow>
          (case datetime_sub end_date delta of
             Inl e \<Rightarrow> (Inl e, lg)
           | Inr start_date \<Rightarrow>
               (case recent_loop clock start_date (repo_iter_commits repo ''main'') [] of
                  Inl e \<Rightarrow> (Inl e, lg)
                | Inr commits \<Rightarrow>
                    (Inr commits, lg @ [Info_recent_commits days (length commits)]))))"

text \<open>
  The whole method: what the caller gets (an exception or a list) and the log.
  \<open>except Exception\<close> writes the \<open>error\<close> line and returns the empty list.
\<close>

definition get_recent_commits ::
  "Repo \<Rightarrow> Clock \<Rightarrow> int \<Rightarrow> log \<Rightarrow> (py_exception + CommitInfo list) \<times> log" where
  "get_recent_commits repo clock days lg =
     (case get_recent_commits_try repo clock days lg of
        (Inl e, lg') \<Rightarrow> (Inr [], lg' @ [Error_recent_commits e])
      | (Inr commits, lg') \<Rightarrow> (Inr commits, lg'))"

subsection \<open>\<open>_extract_file_change\<close> and \<open>get_file_changes\<close>\<close>

text \<open>
  \<open>diff.diff.decode('utf-8', errors='ignore')\<close>: only \<open>bytes\<close> has the method
  \<open>decode\<close>; on a \<open>str\<close> and on \<open>None\<close> the attribute lookup raises \<open>AttributeError\<close>.
\<close>

fun decode_body :: "diff_body \<Rightarrow> py_exception + unicode" where
  "decode_body (Bytes bs) = decode_utf8 Ignore bs"
| "decode_body (Str s) = Inl AttributeError"
| "decode_body NoBody = Inl AttributeError"

text \<open>
  The body of the \<open>try\<close> of \<open>_extract_file_change\<close>. The counts come from \<open>stats\<close>, or
  are 0 when reading it raises \<open>AttributeError\<close>.
\<close>

definition extract_file_change_try :: "Diff \<Rightarrow> py_exception + FileChange option" where
  "extract_file_change_try d =
     (let path = py_or (a_path d) (b_path d) in
      if \<not> py_truthy path then Inr None
      else
        let ctype =
              (if new_file d then ''A''
               else if deleted_file d then ''D''
               else ''M'')
        in case decode_body (diff d) of
             Inl e \<Rightarrow> Inl e
           | Inr content \<Rightarrow>
               let (adds, dels) =
                     (case stats d of
                        Some st \<Rightarrow> (dict_get st ''insertions'' 0, dict_get st ''deletions'' 0)
                      | None \<Rightarrow> (0, 0))
               in Inr (Some \<lparr> file_path = the path,
                               change_type = ctype,
                               fc_additions = adds,
                               fc_deletions = dels,
                               diff_content = content \<rparr>))"

text \<open>
  The whole method: \<open>except Exception\<close> writes the \<open>error\<close> line and returns \<open>None\<close>.
\<close>

definition extract_file_change :: "Diff \<Rightarrow> log \<Rightarrow> FileChange option \<times> log" where
  "extract_file_change d lg =
     (case extract_file_change_try d of
        Inl e \<Rightarrow> (None, lg @ [Error_extract_file_change e])
      | Inr r \<Rightarrow> (r, lg))"

text \<open>The loop of \<open>get_file_changes\<close>: a record is appended when one is returned.\<close>

fun changes_loop :: "Diff list \<Rightarrow> FileChange list \<Rightarrow> log \<Rightarrow> FileChange list \<times> log" where
  "changes_loop [] changes lg = (changes, lg)"
| "changes_loop (change # rest) changes lg =
     (case extract_file_change change lg of
        (Some file_change, lg') \<Rightarrow> changes_loop rest (changes @ [file_change]) lg'
      | (None, lg') \<Rightarrow> changes_loop rest changes lg')"

definition get_file_changes_try ::
  "Repo \<Rightarrow> string \<Rightarrow> log \<Rightarrow> (py_exception + FileChange list) \<times> log" where
  "get_file_changes_try repo commit_hash lg =
     (case repo_commit repo commit_hash of
        Inl e \<Rightarrow> (Inl e, lg)
      | Inr commit \<Rightarrow>
          (case c_parents commit of
             p # ps \<Rightarrow>
               (case c_diff commit p of
                  Inl e \<Rightarrow> (Inl e, lg)
                | Inr d \<Rightarrow> (case changes_loop d [] lg of (changes, lg') \<Rightarrow> (Inr changes, lg')))
           | [] \<Rightarrow> (Inr [], lg)))"

definition get_file_changes ::
  "Repo \<Rightarrow> string \<Rightarrow> log \<Rightarrow> (py_exception + FileChange list) \<times> log" where
  "get_file_changes repo commit_hash lg =
     (case get_file_changes_try repo commit_hash lg of
        (Inl e, lg') \<Rightarrow> (Inr [], lg' @ [Error_file_changes e])
      | (Inr changes, lg') \<Rightarrow> (Inr changes, lg'))"

subsection \<open>Notions used to state the properties\<close>

text \<open>What \<open>errors='ignore'\<close> keeps of a scan: the code points, in order.\<close>

fun code_points :: "utf8_item list \<Rightarrow> unicode" where
  "code_points [] = []"
| "code_points (CodePoint c # its) = c # code_points its"
| "code_points (Malformed n # its) = code_points its"

text \<open>
  The insertion and deletion counts of a diff entry: what its statistics give, 0 for a
  count they do not give, and 0 for both when the entry has no statistics.
\<close>

definition entry_insertions :: "Diff \<Rightarrow> int" where
  "entry_insertions d = (case stats d of None \<Rightarrow> 0 | Some st \<Rightarrow> dict_get st ''insertions'' 0)"

definition entry_deletions :: "Diff \<Rightarrow> int" where
  "entry_deletions d = (case stats d of None \<Rightarrow> 0 | Some st \<Rightarrow> dict_get st ''deletions'' 0)"

text \<open>
  The paths of an entry of \<open>commit.diff(commit.parents[0])\<close> after and before the
  commit's change: the a-side is the commit, the b-side its parent.
\<close>

definition post_change_path :: "Diff \<Rightarrow> string option" where
  "post_change_path d = a_path d"

definition pre_change_path :: "Diff \<Rightarrow> string option" where
  "pre_change_path d = b_path d"

text \<open>An entry has a path when one of its two sides has a non-empty one.\<close>

definition has_path :: "Diff \<Rightarrow> bool" where
  "has_path d = py_truthy (py_or (a_path d) (b_path d))"

fun is_bytes :: "diff_body \<Rightarrow> bool" where
  "is_bytes (Bytes bs) = True"
| "is_bytes (Str s) = False"
| "is_bytes NoBody = False"

text \<open>
  The entries for which a record is emitted, and those for which the extraction fails.
\<close>

definition emitted :: "Diff \<Rightarrow> bool" where
  "emitted d = (has_path d \<and> is_bytes (diff d))"

definition failed :: "Diff \<Rightarrow> bool" where
  "failed d = (has_path d \<and> \<not> is_bytes (diff d))"

text \<open>The change type the library's flags give.\<close>

definition flag_type :: "Diff \<Rightarrow> string" where
  "flag_type d = (if new_file d then ''A'' else if deleted_file d then ''D'' else ''M'')"

text \<open>The iterator that yields the commits of a list and then goes on as \<open>t\<close>.\<close>

fun yields :: "'a list \<Rightarrow> 'a iter \<Rightarrow> 'a iter" where
  "yields [] t = t"
| "yields (x # xs) t = Yield x (yields xs t)"

text \<open>The number a statistics value is, if it is one.\<close>

fun number_of :: "stat_value \<Rightarrow> int option" where
  "number_of (IntVal n) = Some n"
| "number_of (DictVal d) = None"

text \<open>
  The line total the library reports for a file of the initial snapshot: the number
  itself, or the \<open>lines\<close> count of a per-file dictionary.
\<close>

definition reported_line_total :: "stat_value \<Rightarrow> int" where
  "reported_line_total v = (case v of IntVal n \<Rightarrow> n | DictVal d \<Rightarrow> dict_get d ''lines'' 0)"

text \<open>
  The cutoff \<open>end_date - timedelta(days=days)\<close>, or the exception its computation
  raises.
\<close>

definition cutoff :: "datetime \<Rightarrow> int \<Rightarrow> py_exception + datetime" where
  "cutoff end_date days =
     (case timedelta days of Inl e \<Rightarrow> Inl e | Inr delta \<Rightarrow> datetime_sub end_date delta)"

text \<open>A commit is in the window from \<open>s\<close> on when its time converts to a datetime not before \<open>s\<close>.\<close>

definition in_window :: "Clock \<Rightarrow> datetime \<Rightarrow> Commit \<Rightarrow> bool" where
  "in_window clock s c =
     (case fromtimestamp clock (c_committed_date c) of Inl e \<Rightarrow> False | Inr t \<Rightarrow> s \<le> t)"

subsection \<open>Example repositories\<close>

text \<open>
  Entries as a diff with patch text carries them (\<open>diff\<close> is \<open>bytes\<close>): one with the
  new-file flag and statistics, one with the deleted-file flag, a rename whose diff holds
  the invalid byte \<open>0xFF\<close> (the commit has \<open>new.txt\<close>, its parent \<open>old.txt\<close>), one with
  a path on the b-side only, and one without a path.
\<close>

definition entry_new_flag :: Diff where
  "entry_new_flag = \<lparr> a_path = Some ''one.txt'', b_path = Some ''one.txt'', new_file = True,
     deleted_file = False, diff = Bytes [0x2B, 0x61],
     stats = Some [(''insertions'', 3), (''deletions'', 0)] \<rparr>"

definition entry_deleted_flag :: Diff where
  "entry_deleted_flag = \<lparr> a_path = Some ''two.txt'', b_path = Some ''two.txt'', new_file = False,
     deleted_file = True, diff = Bytes [], stats = None \<rparr>"

definition entry_renamed :: Diff where
  "entry_renamed = \<lparr> a_path = Some ''new.txt'', b_path = Some ''old.txt'', new_file = False,
     deleted_file = False, diff = Bytes [0x61, 0xFF, 0x62],
     stats = Some [(''insertions'', 2), (''deletions'', 1)] \<rparr>"

definition entry_b_only :: Diff where
  "entry_b_only = \<lparr> a_path = None, b_path = Some ''only_b.txt'', new_file = False,
     deleted_file = False, diff = Bytes [], stats = None \<rparr>"

definition entry_no_path :: Diff where
  "entry_no_path = \<lparr> a_path = None, b_path = Some [], new_file = False,
     deleted_file = False, diff = Bytes [], stats = None \<rparr>"

text \<open>
  Entries as \<open>commit.diff(commit.parents[0])\<close> yields them: made without patch text,
  \<open>diff\<close> is the empty \<open>str\<close>, both paths are set and there is no \<open>stats\<close>. Seen from
  the commit to its parent, a file that the commit adds is on the a-side only
  (\<open>deleted_file\<close>), and a file that the commit deletes is on the b-side only
  (\<open>new_file\<close>).
\<close>

definition raw_added :: Diff where
  "raw_added = \<lparr> a_path = Some ''added.txt'', b_path = Some ''added.txt'', new_file = False,
     deleted_file = True, diff = Str [], stats = None \<rparr>"

definition raw_deleted :: Diff where
  "raw_deleted = \<lparr> a_path = Some ''gone.txt'', b_path = Some ''gone.txt'', new_file = True,
     deleted_file = False, diff = Str [], stats = None \<rparr>"

definition raw_modified :: Diff where
  "raw_modified = \<lparr> a_path = Some ''kept.txt'', b_path = Some ''kept.txt'', new_file = False,
     deleted_file = False, diff = Str [], stats = None \<rparr>"

definition mk_commit ::
  "string \<Rightarrow> int \<Rightarrow> string list \<Rightarrow> (py_exception + Diff list) \<Rightarrow>
   (py_exception + (string \<times> stat_value) list) \<Rightarrow> Commit" where
  "mk_commit sha secs ps d fs =
     \<lparr> c_hexsha = sha, c_author_name = ''dev'', c_committed_date = secs,
       c_message = [0xA0, 0x77, 0x6F, 0x72, 0x6B, 0x0A], c_parents = ps, c_diff = (\<lambda>p. d),
       c_stats_files = fs \<rparr>"

definition child_commit :: Commit where
  "child_commit =
     mk_commit ''c1c1c1c1c1'' 1900000 [''r0r0r0r0r0'']
       (Inr [entry_new_flag, entry_deleted_flag, entry_no_path, entry_renamed]) (Inr [])"

definition second_commit :: Commit where
  "second_commit =
     mk_commit ''5ec05ec05e'' 1850000 [''c1c1c1c1c1'']
       (Inr [entry_b_only, raw_modified, entry_renamed]) (Inr [])"

definition raw_commit :: Commit where
  "raw_commit =
     mk_commit ''4a4a4a4a4a'' 1840000 [''5ec05ec05e'']
       (Inr [raw_added, raw_deleted, raw_modified]) (Inr [])"

definition root_files :: "(string \<times> stat_value) list" where
  "root_files =
     [(''a.txt'', DictVal [(''insertions'', 3), (''deletions'', 0), (''lines'', 3)]),
      (''b.txt'', DictVal [(''insertions'', 2), (''deletions'', 0), (''lines'', 2)])]"

definition root_commit :: Commit where
  "root_commit = mk_commit ''r0r0r0r0r0'' 1395200 [] (Inr []) (Inr root_files)"

definition root_commit_numbers :: Commit where
  "root_commit_numbers =
     mk_commit ''r1r1r1r1r1'' 1395200 [] (Inr []) (Inr [(''a.txt'', IntVal 3), (''b.txt'', IntVal 2)])"

definition old_commit :: Commit where
  "old_commit = mk_commit ''0ld0ld0ld0'' 1395199 [] (Inr []) (Inr [])"

definition late_commit :: Commit where
  "late_commit = mk_commit ''1a7e1a7e1a'' 1950000 [''0ld0ld0ld0''] (Inr []) (Inr [])"

definition broken_commit :: Commit where
  "broken_commit = mk_commit ''badbadbadb'' 1800000 [''r0r0r0r0r0''] (Inl GitCommandError) (Inr [])"

text \<open>
  A clock in the zone UTC: the epoch is 62135596800 seconds after 0001-01-01, and a
  timestamp outside the years 1 to 9999 is refused. Its \<open>now\<close> is 2000000 seconds after
  the epoch.
\<close>

definition utc_fromtimestamp :: "int \<Rightarrow> py_exception + datetime" where
  "utc_fromtimestamp secs =
     (let t = (62135596800 + secs) * 1000000 in
      if 0 \<le> t \<and> t < max_datetime then Inr t else Inl ValueError)"

definition clock_ex :: Clock where
  "clock_ex = \<lparr> now = 62137596800000000, fromtimestamp = utc_fromtimestamp \<rparr>"

text \<open>
  A repository whose main branch has two commits inside a window of seven days before
  the \<open>now\<close> of \<open>clock_ex\<close> (the second exactly at its start), then one a second older,
  then a newer one.
\<close>

definition example_repo :: Repo where
  "example_repo =
     \<lparr> repo_iter_commits =
         (\<lambda>branch. if branch = ''main''
            then yields [child_commit, root_commit] (Yield old_commit (Yield late_commit Done))
            else Raise GitCommandError),
       repo_commit =
         (\<lambda>h. if h = ''c1c1c1c1'' then Inr child_commit
              else if h = ''r0r0r0r0'' then Inr root_commit
              else if h = ''5ec05ec0'' then Inr second_commit
              else if h = ''4a4a4a4a'' then Inr raw_commit
              else Inl BadName) \<rparr>"

definition failing_repo :: Repo where
  "failing_repo =
     \<lparr> repo_iter_commits = (\<lambda>branch. yields [child_commit] (Yield broken_commit Done)),
       repo_commit = (\<lambda>h. Inl BadName) \<rparr>"


definition corrupt_repo :: Repo where
  "corrupt_repo =
     \<lparr> repo_iter_commits = (\<lambda>branch. Raise GitCommandError),
       repo_commit = (\<lambda>h. Inl GitCommandError) \<rparr>"

text \<open>The records of \<open>child_commit\<close> and \<open>root_commit\<close> under \<open>clock_ex\<close>.\<close>

definition child_info :: CommitInfo where
  "child_info =
     \<lparr> hash = ''c1c1c1c1'', author = ''dev'', date = 62137496800000000,
       message = [0x77, 0x6F, 0x72, 0x6B],
       files_changed = [Some ''one.txt'', Some ''two.txt'', Some [], Some ''new.txt''],
       additions = 5, deletions = 1 \<rparr>"


section \<open>Properties\<close>

subsection \<open>Auxiliary facts\<close>

lemma handle_items_Ignore: "handle_items Ignore its = Inr (code_points its)"
proof (induction its)
  case Nil
  show ?case by simp
next
  case (Cons it its)
  then show ?case by (cases it) simp_all
qed

lemma decode_utf8_Ignore: "decode_utf8 Ignore bs = Inr (code_points (utf8_scan bs))"
  by (simp add: decode_utf8_def handle_items_Ignore)

text \<open>
  The handlers \<open>ignore\<close> and \<open>replace\<close> differ on \<open>bytes\<close> with a malformed
  range: the first drops it, the second puts U+FFFD in its place.
\<close>

lemma decode_ignore_drops:
  "decode_utf8 Ignore [0x61, 0xFF, 0x62] = Inr [97, 98]
   \<and> decode_utf8 Replace [0x61, 0xFF, 0x62] = Inr [97, 65533, 98]"
  by (simp add: decode_utf8_def)

lemma diff_loop_eq:
  "diff_loop ds (fs, a, d) =
     (fs @ map (\<lambda>c. py_or (a_path c) (b_path c)) ds,
      a + sum_list (map entry_insertions ds),
      d + sum_list (map entry_deletions ds))"
proof (induction ds arbitrary: fs a d)
  case Nil
  show ?case by simp
next
  case (Cons c ds)
  show ?case
    by (cases "stats c") (simp_all add: Cons.IH entry_insertions_def entry_deletions_def)
qed

lemma py_sum_from_eq:
  "py_sum_from acc vs =
     (if list_all (\<lambda>v. number_of v \<noteq> None) vs
      then Inr (acc + sum_list (map (\<lambda>v. the (number_of v)) vs))
      else Inl TypeError)"
proof (induction vs arbitrary: acc)
  case Nil
  show ?case by simp
next
  case (Cons v vs)
  show ?case by (cases v) (simp_all add: Cons.IH)
qed



lemma recent_loop_yields:
  assumes "list_all2 (\<lambda>c r. extract_commit_info clock c = Inr r) cs rs"
    and "\<forall>c\<in>set cs. in_window clock s c"
  shows "recent_loop clock s (yields cs t) acc = recent_loop clock s t (acc @ rs)"
  using assms
proof (induction cs rs arbitrary: acc rule: list_all2_induct)
  case Nil
  show ?case by simp
next
  case (Cons c r cs rs)
  from Cons.prems have "in_window clock s c" by simp
  then obtain d where d: "fromtimestamp clock (c_committed_date c) = Inr d" and "s \<le> d"
    by (auto simp: in_window_def split: sum.splits)
  with Cons show ?case by simp
qed

lemma get_recent_commits_no_cutoff:
  "cutoff (now clock) days = Inl e \<Longrightarrow>
     get_recent_commits repo clock days lg = (Inr [], lg @ [Error_recent_commits e])"
  by (auto simp: get_recent_commits_def get_recent_commits_try_def cutoff_def split: sum.splits)

lemma get_recent_commits_loop:
  "cutoff (now clock) days = Inr s \<Longrightarrow>
     get_recent_commits repo clock days lg =
       (case recent_loop clock s (repo_iter_commits repo ''main'') [] of
          Inl e \<Rightarrow> (Inr [], lg @ [Error_recent_commits e])
        | Inr commits \<Rightarrow> (Inr commits, lg @ [Info_recent_commits days (length commits)]))"
  by (auto simp: get_recent_commits_def get_recent_commits_try_def cutoff_def split: sum.splits)

lemma extract_file_change_eq:
  "extract_file_change d lg =
     (if \<not> has_path d then (None, lg)
      else case diff d of
             Bytes bs \<Rightarrow>
               (Some \<lparr> file_path = the (py_or (a_path d) (b_path d)),
                        change_type = flag_type d,
                        fc_additions = entry_insertions d,
                        fc_deletions = entry_deletions d,
                        diff_content = code_points (utf8_scan bs) \<rparr>, lg)
           | Str s \<Rightarrow> (None, lg @ [Error_extract_file_change AttributeError])
           | NoBody \<Rightarrow> (None, lg @ [Error_extract_file_change AttributeError]))"
proof (cases "diff d")
  case (Bytes bs)
  then show ?thesis
    by (cases "stats d")
      (simp_all add: extract_file_change_def extract_file_change_try_def decode_utf8_Ignore
        Let_def has_path_def flag_type_def entry_insertions_def entry_deletions_def)
next
  case (Str s)
  then show ?thesis
    by (simp add: extract_file_change_def extract_file_change_try_def Let_def has_path_def)
next
  case NoBody
  then show ?thesis
    by (simp add: extract_file_change_def extract_file_change_try_def Let_def has_path_def)
qed

lemma extract_file_change_emitted:
  "emitted d \<Longrightarrow> extract_file_change d lg = (Some (the (fst (extract_file_change d []))), lg)"
  by (cases "diff d") (simp_all add: emitted_def extract_file_change_eq)

lemma extract_file_change_failed:
  "failed d \<Longrightarrow> extract_file_change d lg = (None, lg @ [Error_extract_file_change AttributeError])"
  by (cases "diff d") (simp_all add: failed_def extract_file_change_eq)

lemma extract_file_change_no_path:
  "\<not> has_path d \<Longrightarrow> extract_file_change d lg = (None, lg)"
  by (simp add: extract_file_change_eq)

lemma changes_loop_eq:
  "changes_loop ds acc lg =
     (acc @ map (\<lambda>d. the (fst (extract_file_change d []))) (filter emitted ds),
      lg @ map (\<lambda>d. Error_extract_file_change AttributeError) (filter failed ds))"
proof (induction ds arbitrary: acc lg)
  case Nil
  show ?case by simp
next
  case (Cons d ds)
  consider "emitted d" | "failed d" | "\<not> has_path d"
    by (auto simp: emitted_def failed_def)
  then show ?case
  proof cases
    case 1
    then have "\<not> failed d" by (simp add: emitted_def failed_def)
    moreover have "extract_file_change d lg = (Some (the (fst (extract_file_change d []))), lg)"
      using 1 by (rule extract_file_change_emitted)
    ultimately show ?thesis using 1 by (simp add: Cons.IH)
  next
    case 2
    then have "\<not> emitted d" by (simp add: emitted_def failed_def)
    with 2 show ?thesis by (simp add: extract_file_change_failed Cons.IH)
  next
    case 3
    then have "\<not> emitted d" and "\<not> failed d" by (simp_all add: emitted_def failed_def)
    with 3 show ?thesis by (simp add: extract_file_change_no_path Cons.IH)
  qed
qed

lemma get_file_changes_nonroot:
  assumes "repo_commit repo h = Inr c" and "c_parents c = p # ps" and "c_diff c p = Inr ds"
  shows "get_file_changes repo h lg =
           (Inr (map (\<lambda>d. the (fst (extract_file_change d []))) (filter emitted ds)),
            lg @ map (\<lambda>d. Error_extract_file_change AttributeError) (filter failed ds))"
  using assms
  by (simp add: get_file_changes_def get_file_changes_try_def changes_loop_eq)

lemma extract_child_commit: "extract_commit_info clock_ex child_commit = Inr child_info"
  by (simp add: child_commit_def mk_commit_def child_info_def extract_commit_info_def
      commit_changes_def py_or_def dict_get_def clock_ex_def utc_fromtimestamp_def
      max_datetime_def strip_def is_space_def
      entry_new_flag_def entry_deleted_flag_def entry_no_path_def entry_renamed_def)


lemma cutoff_ex: "cutoff (now clock_ex) 7 = Inr 62136992000000000"
  by (simp add: cutoff_def timedelta_def datetime_sub_def max_datetime_def clock_ex_def)

lemma cutoff_ex_overflow: "cutoff (now clock_ex) 1000000 = Inl OverflowError"
  by (simp add: cutoff_def timedelta_def datetime_sub_def max_datetime_def clock_ex_def)


subsection \<open>Commit records\<close>

text \<open>
  C4. For a commit with a parent whose diff against its first parent has the entries
  \<open>ds\<close>, \<open>_extract_commit_info\<close> returns a record whenever the commit time converts to a
  datetime (as it has, at the head of the loop, for every commit that
  \<open>get_recent_commits\<close> processes): \<open>files_changed\<close> has one element per entry,
  \<open>additions\<close> is the sum of the entries' insertion counts and \<open>deletions\<close> the sum of
  their deletion counts, where an entry without statistics counts 0 in both sums and does
  not make the commit fail. The conversion of the commit time is the only step that can
  fail.
\<close>

theorem extract_commit_info_nonroot:
  assumes "c_parents c = p # ps" and "c_diff c p = Inr ds"
  shows "(\<forall>t. fromtimestamp clock (c_committed_date c) = Inr t \<longrightarrow>
            (\<exists>r. extract_commit_info clock c = Inr r
               \<and> date r = t
               \<and> length (files_changed r) = length ds
               \<and> additions r = sum_list (map entry_insertions ds)
               \<and> deletions r = sum_list (map entry_deletions ds)))
       \<and> (\<forall>e. fromtimestamp clock (c_committed_date c) = Inl e \<longrightarrow>
            extract_commit_info clock c = Inl e)"
  using assms by (simp add: extract_commit_info_def commit_changes_def diff_loop_eq)

text \<open>
  At \<open>child_commit\<close>: four entries, two of them without statistics, insertions 3 and 2,
  deletions 0 and 1.
\<close>

theorem extract_commit_info_nonroot_witness:
  "\<exists>r. extract_commit_info clock_ex child_commit = Inr r
      \<and> date r = 62137496800000000
      \<and> length (files_changed r) = 4 \<and> additions r = 5 \<and> deletions r = 1"
proof -
  have h1: "c_parents child_commit = [''r0r0r0r0r0'']"
    by (simp add: child_commit_def mk_commit_def)
  have h2: "c_diff child_commit ''r0r0r0r0r0''
              = Inr [entry_new_flag, entry_deleted_flag, entry_no_path, entry_renamed]"
    by (simp add: child_commit_def mk_commit_def)
  have h3: "fromtimestamp clock_ex (c_committed_date child_commit) = Inr 62137496800000000"
    by (simp add: child_commit_def mk_commit_def clock_ex_def utc_fromtimestamp_def
        max_datetime_def)
  from extract_commit_info_nonroot [OF h1 h2, of clock_ex] h3
  have "\<exists>r. extract_commit_info clock_ex child_commit = Inr r
      \<and> date r = 62137496800000000
      \<and> length (files_changed r)
          = length [entry_new_flag, entry_deleted_flag, entry_no_path, entry_renamed]
      \<and> additions r = sum_list (map entry_insertions
            [entry_new_flag, entry_deleted_flag, entry_no_path, entry_renamed])
      \<and> deletions r = sum_list (map entry_deletions
            [entry_new_flag, entry_deleted_flag, entry_no_path, entry_renamed])"
    by blast
  then show ?thesis
    by (simp add: entry_insertions_def entry_deletions_def dict_get_def entry_new_flag_def
        entry_deleted_flag_def entry_no_path_def entry_renamed_def eval_nat_numeral)
qed

text \<open>
  C3, as stated, fails: for the root commit \<open>root_commit\<close> the library reports a
  dictionary of counts per file, with line totals 3 and 2; the sum of the values raises
  \<open>TypeError\<close> and \<open>additions\<close> is 0, not 5.
\<close>

theorem extract_commit_info_root_counterexample:
  "c_parents root_commit = [] \<and> c_stats_files root_commit = Inr root_files
   \<and> map_sum id additions (extract_commit_info clock_ex root_commit) = Inr 0
   \<and> sum_list (map (\<lambda>f. reported_line_total (snd f)) root_files) = 5"
  by (simp add: root_commit_def mk_commit_def root_files_def extract_commit_info_def
      commit_changes_def py_sum_def reported_line_total_def dict_get_def clock_ex_def
      utc_fromtimestamp_def max_datetime_def)

text \<open>
  C3, amended. For a root commit whose statistics are \<open>files\<close>, \<open>_extract_commit_info\<close>
  returns a record whenever the commit time converts to a datetime (as it has for every
  commit that \<open>get_recent_commits\<close> processes): \<open>files_changed\<close> lists the files of the
  snapshot in the order of the statistics, \<open>deletions\<close> is 0, and \<open>additions\<close> is the sum
  of the per-file values when every value is a number, and 0 when some value is not a
  number. The conversion of the commit time is the only step that can fail.
\<close>

theorem extract_commit_info_root:
  assumes "c_parents c = []" and "c_stats_files c = Inr files"
  shows "(\<forall>t. fromtimestamp clock (c_committed_date c) = Inr t \<longrightarrow>
            (\<exists>r. extract_commit_info clock c = Inr r
               \<and> date r = t
               \<and> files_changed r = map (\<lambda>f. Some (fst f)) files
               \<and> deletions r = 0
               \<and> additions r =
                   (if list_all (\<lambda>f. number_of (snd f) \<noteq> None) files
                    then sum_list (map (\<lambda>f. the (number_of (snd f))) files)
                    else 0)))
       \<and> (\<forall>e. fromtimestamp clock (c_committed_date c) = Inl e \<longrightarrow>
            extract_commit_info clock c = Inl e)"
  using assms
  by (simp add: extract_commit_info_def commit_changes_def py_sum_def py_sum_from_eq
      list.pred_map o_def)

theorem extract_commit_info_root_witness:
  "\<exists>r. extract_commit_info clock_ex root_commit_numbers = Inr r
      \<and> date r = 62136992000000000
      \<and> files_changed r = [Some ''a.txt'', Some ''b.txt''] \<and> deletions r = 0 \<and> additions r = 5"
proof -
  have h1: "c_parents root_commit_numbers = []"
    by (simp add: root_commit_numbers_def mk_commit_def)
  have h2: "c_stats_files root_commit_numbers = Inr [(''a.txt'', IntVal 3), (''b.txt'', IntVal 2)]"
    by (simp add: root_commit_numbers_def mk_commit_def)
  have h3: "fromtimestamp clock_ex (c_committed_date root_commit_numbers) = Inr 62136992000000000"
    by (simp add: root_commit_numbers_def mk_commit_def clock_ex_def utc_fromtimestamp_def
        max_datetime_def)
  from extract_commit_info_root [OF h1 h2, of clock_ex] h3
  have "\<exists>r. extract_commit_info clock_ex root_commit_numbers = Inr r
      \<and> date r = 62136992000000000
      \<and> files_changed r = map (\<lambda>f. Some (fst f)) [(''a.txt'', IntVal 3), (''b.txt'', IntVal 2)]
      \<and> deletions r = 0
      \<and> additions r =
          (if list_all (\<lambda>f. number_of (snd f) \<noteq> None) [(''a.txt'', IntVal 3), (''b.txt'', IntVal 2)]
           then sum_list (map (\<lambda>f. the (number_of (snd f)))
                  [(''a.txt'', IntVal 3), (''b.txt'', IntVal 2)])
           else 0)"
    by blast
  then show ?thesis by simp
qed

subsection \<open>File changes of one commit\<close>

text \<open>
  C9. For an identifier that resolves to a root commit, \<open>get_file_changes\<close> returns the
  empty list (and writes nothing to the log).
\<close>

theorem get_file_changes_root:
  "repo_commit repo h = Inr c \<Longrightarrow> c_parents c = [] \<Longrightarrow> get_file_changes repo h lg = (Inr [], lg)"
  by (simp add: get_file_changes_def get_file_changes_try_def)

theorem get_file_changes_root_witness:
  "repo_commit example_repo ''r0r0r0r0'' = Inr root_commit \<and> c_parents root_commit = []
   \<and> get_file_changes example_repo ''r0r0r0r0'' [] = (Inr [], [])"
proof -
  have h1: "repo_commit example_repo ''r0r0r0r0'' = Inr root_commit"
    by (simp add: example_repo_def)
  have h2: "c_parents root_commit = []"
    by (simp add: root_commit_def mk_commit_def)
  from get_file_changes_root [OF h1 h2, of "[]"] h1 h2 show ?thesis by simp
qed

text \<open>
  C1, as stated, fails: \<open>''deadbeef''\<close> does not resolve in \<open>example_repo\<close>, and
  \<open>get_file_changes\<close> returns the empty list to its caller instead of failing.
\<close>

theorem get_file_changes_unknown_counterexample:
  "repo_commit example_repo ''deadbeef'' = Inl BadName
   \<and> fst (get_file_changes example_repo ''deadbeef'' []) = Inr []"
  by (simp add: example_repo_def get_file_changes_def get_file_changes_try_def)

text \<open>
  C1, amended. For an identifier that does not resolve to a commit, \<open>get_file_changes\<close>
  writes the lookup's exception to the log as an error and returns the empty list; no
  exception reaches the caller.
\<close>

theorem get_file_changes_unknown:
  "repo_commit repo h = Inl e \<Longrightarrow>
     get_file_changes repo h lg = (Inr [], lg @ [Error_file_changes e])"
  by (simp add: get_file_changes_def get_file_changes_try_def)

theorem get_file_changes_unknown_witness:
  "repo_commit corrupt_repo ''deadbeef'' = Inl GitCommandError
   \<and> get_file_changes corrupt_repo ''deadbeef'' [] = (Inr [], [Error_file_changes GitCommandError])"
proof -
  have h: "repo_commit corrupt_repo ''deadbeef'' = Inl GitCommandError"
    by (simp add: corrupt_repo_def)
  from get_file_changes_unknown [OF h, of "[]"] h show ?thesis by simp
qed

text \<open>
  C2. For a commit with a parent, \<open>get_file_changes\<close> emits a record for the entries of
  the first-parent diff that have a path and a \<open>bytes\<close> diff, in their order. The
  \<open>file_path\<close> of each is the entry's post-change path (the path on the side of the
  commit) whenever that side has one, also when the two paths differ, as for a rename;
  it is the pre-change path when only the parent's side has one.
\<close>

theorem file_path_post_change:
  assumes "repo_commit repo h = Inr c" and "c_parents c = p # ps" and "c_diff c p = Inr ds"
  shows "\<exists>rs lg'. get_file_changes repo h lg = (Inr rs, lg')
           \<and> map file_path rs =
               map (\<lambda>d. if py_truthy (post_change_path d) then the (post_change_path d)
                        else the (pre_change_path d))
                 (filter emitted ds)"
  using assms
  by (simp add: get_file_changes_nonroot extract_file_change_eq emitted_def o_def py_or_def
      post_change_path_def pre_change_path_def split: diff_body.splits cong: map_cong)

text \<open>
  At \<open>second_commit\<close>: the entry with a path on the parent's side only gives that path,
  the rename from \<open>old.txt\<close> to \<open>new.txt\<close> gives \<open>new.txt\<close>, and the entry without
  patch text gives no record.
\<close>

theorem file_path_post_change_witness:
  "post_change_path entry_renamed = Some ''new.txt''
   \<and> pre_change_path entry_renamed = Some ''old.txt''
   \<and> (\<exists>rs lg'. get_file_changes example_repo ''5ec05ec0'' [] = (Inr rs, lg')
        \<and> map file_path rs = [''only_b.txt'', ''new.txt''])"
proof -
  have h1: "repo_commit example_repo ''5ec05ec0'' = Inr second_commit"
    by (simp add: example_repo_def)
  have h2: "c_parents second_commit = [''c1c1c1c1c1'']"
    by (simp add: second_commit_def mk_commit_def)
  have h3: "c_diff second_commit ''c1c1c1c1c1'' = Inr [entry_b_only, raw_modified, entry_renamed]"
    by (simp add: second_commit_def mk_commit_def)
  from file_path_post_change [OF h1 h2 h3, of "[]"] show ?thesis
    by (simp add: emitted_def has_path_def py_or_def post_change_path_def pre_change_path_def
        entry_b_only_def entry_renamed_def raw_modified_def)
qed


text \<open>
  C7 does not hold of the code, by two slips. A commit that adds \<open>added.txt\<close>, deletes
  \<open>gone.txt\<close> and modifies \<open>kept.txt\<close> should give three records, classified \<open>A\<close>,
  \<open>D\<close>, \<open>M\<close>. The diff is made without patch text, so for each entry the decoding of
  the \<open>str\<close> raises \<open>AttributeError\<close>: no record is emitted and three errors are
  logged. And the diff runs from the commit to its parent, so the flags are those of the
  reverse change: with a \<open>bytes\<close> diff the added file would be classified \<open>D\<close> and the
  deleted file \<open>A\<close>.
\<close>

theorem change_type_failing_input:
  "repo_commit example_repo ''4a4a4a4a'' = Inr raw_commit
   \<and> c_diff raw_commit ''5ec05ec05e'' = Inr [raw_added, raw_deleted, raw_modified]
   \<and> get_file_changes example_repo ''4a4a4a4a'' [] =
       (Inr [], [Error_extract_file_change AttributeError,
                 Error_extract_file_change AttributeError,
                 Error_extract_file_change AttributeError])
   \<and> map_option change_type (fst (extract_file_change (raw_added \<lparr> diff := Bytes [] \<rparr>) []))
       = Some ''D''
   \<and> map_option change_type (fst (extract_file_change (raw_deleted \<lparr> diff := Bytes [] \<rparr>) []))
       = Some ''A''"
  by (simp add: example_repo_def raw_commit_def mk_commit_def raw_added_def raw_deleted_def
      raw_modified_def get_file_changes_def get_file_changes_try_def extract_file_change_def
      extract_file_change_try_def py_or_def decode_utf8_def)




subsection \<open>Recent commits\<close>

text \<open>
  C8. When the history of the main branch cannot be iterated at all (the iterator raises
  before it yields a commit), \<open>get_recent_commits\<close> returns the empty list and writes
  an exception to the log as an error: that of the iterator, or that of the cutoff when
  its computation, which comes first, raises. The caller gets a list, not an exception.
\<close>

theorem get_recent_commits_iter_fails:
  "repo_iter_commits repo ''main'' = Raise e \<Longrightarrow>
     get_recent_commits repo clock days lg =
       (Inr [], lg @ [Error_recent_commits
                        (case cutoff (now clock) days of Inl e' \<Rightarrow> e' | Inr s \<Rightarrow> e)])"
  by (cases "cutoff (now clock) days")
    (simp_all add: get_recent_commits_no_cutoff get_recent_commits_loop)

theorem get_recent_commits_iter_fails_witness:
  "repo_iter_commits corrupt_repo ''main'' = Raise GitCommandError
   \<and> get_recent_commits corrupt_repo clock_ex 7 [] = (Inr [], [Error_recent_commits GitCommandError])
   \<and> get_recent_commits corrupt_repo clock_ex 1000000 []
       = (Inr [], [Error_recent_commits OverflowError])"
proof -
  have h: "repo_iter_commits corrupt_repo ''main'' = Raise GitCommandError"
    by (simp add: corrupt_repo_def)
  from get_recent_commits_iter_fails [OF h, of clock_ex 7 "[]"]
    get_recent_commits_iter_fails [OF h, of clock_ex 1000000 "[]"] h
  show ?thesis by (simp add: cutoff_ex cutoff_ex_overflow)
qed




text \<open>
  C10. When the commits before \<open>c\<close> are inside the window and their records have been
  derived, and deriving the record of the in-window commit \<open>c\<close> raises, then
  \<open>get_recent_commits\<close> returns the empty list and logs the exception: the records
  derived before are not returned. (When already the cutoff cannot be computed, no commit
  is looked at, and the result is the empty list with that exception logged.)
\<close>

theorem get_recent_commits_all_or_nothing:
  assumes "repo_iter_commits repo ''main'' = yields cs (Yield c rest)"
    and "list_all2 (\<lambda>c r. extract_commit_info clock c = Inr r) cs rs"
    and "\<forall>s. cutoff (now clock) days = Inr s \<longrightarrow>
           (\<forall>x\<in>set cs. in_window clock s x) \<and> in_window clock s c"
    and "extract_commit_info clock c = Inl e"
  shows "get_recent_commits repo clock days lg =
           (Inr [], lg @ [Error_recent_commits
                            (case cutoff (now clock) days of Inl e' \<Rightarrow> e' | Inr s \<Rightarrow> e)])"
proof (cases "cutoff (now clock) days")
  case (Inl e')
  then show ?thesis by (simp add: get_recent_commits_no_cutoff)
next
  case (Inr s)
  with assms(3) have win: "\<forall>x\<in>set cs. in_window clock s x" and c: "in_window clock s c"
    by simp_all
  from c obtain d where d: "fromtimestamp clock (c_committed_date c) = Inr d" and "s \<le> d"
    by (auto simp: in_window_def split: sum.splits)
  have "recent_loop clock s (yields cs (Yield c rest)) []
          = recent_loop clock s (Yield c rest) ([] @ rs)"
    using assms(2) win by (rule recent_loop_yields)
  also have "\<dots> = Inl e"
    using d \<open>s \<le> d\<close> assms(4) by simp
  finally show ?thesis
    using assms(1) Inr by (simp add: get_recent_commits_loop)
qed

text \<open>
  At \<open>failing_repo\<close>: the record of the first commit is derived, the diff of the second
  fails, and the result is empty.
\<close>

theorem get_recent_commits_all_or_nothing_witness:
  "extract_commit_info clock_ex child_commit = Inr child_info
   \<and> extract_commit_info clock_ex broken_commit = Inl GitCommandError
   \<and> get_recent_commits failing_repo clock_ex 7 [] = (Inr [], [Error_recent_commits GitCommandError])"
proof -
  have h1: "repo_iter_commits failing_repo ''main'' = yields [child_commit] (Yield broken_commit Done)"
    by (simp add: failing_repo_def)
  have h2: "list_all2 (\<lambda>c r. extract_commit_info clock_ex c = Inr r) [child_commit] [child_info]"
    by (simp add: extract_child_commit)
  have h3: "\<forall>s. cutoff (now clock_ex) 7 = Inr s \<longrightarrow>
              (\<forall>x\<in>set [child_commit]. in_window clock_ex s x) \<and> in_window clock_ex s broken_commit"
  proof (intro allI impI)
    fix s
    assume "cutoff (now clock_ex) 7 = Inr s"
    with cutoff_ex have "s = 62136992000000000" by simp
    then show "(\<forall>x\<in>set [child_commit]. in_window clock_ex s x) \<and> in_window clock_ex s broken_commit"
      by (simp add: in_window_def child_commit_def broken_commit_def mk_commit_def
          clock_ex_def utc_fromtimestamp_def max_datetime_def)
  qed
  have h5: "extract_commit_info clock_ex broken_commit = Inl GitCommandError"
    by (simp add: broken_commit_def mk_commit_def extract_commit_info_def commit_changes_def)
  from get_recent_commits_all_or_nothing [OF h1 h2 h3 h5, of "[]"] h5 extract_child_commit
  show ?thesis by (simp add: cutoff_ex)
qed

end
